theory Spec2Isabelle
  imports Main
begin

section \<open>Python values of a decoded JSON body\<close>

text \<open>
  A float. A finite one is held by the text that \<open>repr\<close>, and so \<open>json.dumps\<close>, writes
  for it, which identifies it: \<open>0.5\<close>, \<open>3.0\<close>, \<open>1e+22\<close>; the two zeros are \<open>0.0\<close> and
  \<open>-0.0\<close>. \<open>Infinity True\<close> is the negative infinity.
\<close>

datatype pyfloat =
    Finite string
  | NaN
  | Infinity bool

text \<open>
  \<open>request.get_json()\<close> yields \<open>None\<close>, a bool, an int, a float, a str, a list or a
  dict. A dict is an association list in insertion order, its keys distinct; \<open>.get\<close>
  reads it with \<open>map_of\<close>. A character is a code point below 256.
\<close>

datatype json =
    JNull
  | JBool bool
  | JInt int
  | JFloat pyfloat
  | JStr string
  | JArr "json list"
  | JObj "(string \<times> json) list"

text \<open>
  The exceptions of the program: \<open>abort(code)\<close>, the built-in ones that the validator,
  the loop of the patch handler and the views of a drink raise, the store's, and the
  gate's \<open>AuthError\<close> with its status code and description.
\<close>

datatype pyexc =
    Abort nat
  | TypeError
  | AttributeError
  | ValueError
  | OverflowError
  | KeyError
  | SQLAlchemyError
  | AuthError nat string

text \<open>Python truthiness: what \<open>not x\<close> and \<open>if x:\<close> test.\<close>

fun truthy :: "json \<Rightarrow> bool" where
  "truthy JNull = False"
| "truthy (JBool b) = b"
| "truthy (JInt n) = (n \<noteq> 0)"
| "truthy (JFloat x) = (x \<noteq> Finite ''0.0'' \<and> x \<noteq> Finite ''-0.0'')"
| "truthy (JStr s) = (s \<noteq> [])"
| "truthy (JArr xs) = (xs \<noteq> [])"
| "truthy (JObj kvs) = (kvs \<noteq> [])"

text \<open>\<open>x.get(key, None)\<close>: only a dict has the attribute \<open>get\<close>.\<close>

fun get :: "json \<Rightarrow> string \<Rightarrow> pyexc + json" where
  "get (JObj kvs) key = Inr (case map_of kvs key of None \<Rightarrow> JNull | Some v \<Rightarrow> v)"
| "get _ key = Inl AttributeError"

subsection \<open>\<open>int(x)\<close>\<close>

text \<open>
  \<open>int\<close> of a str skips the whitespace around it, reads an optional sign and then
  decimal digits, between which single underscores may stand; anything else raises
  \<open>ValueError\<close>. The whitespace that \<open>int\<close> skips is the tab, the line feed, the
  vertical tab, the form feed, the carriage return, the space, and of the code points
  above 127 the next line (133) and the no-break space (160); the separators 28 to 31
  are not skipped.
\<close>

definition is_space :: "char \<Rightarrow> bool" where
  "is_space c = (let n = (of_char c :: nat) in
     (9 \<le> n \<and> n \<le> 13) \<or> n = 32 \<or> n = 133 \<or> n = 160)"

definition is_digit :: "char \<Rightarrow> bool" where
  "is_digit c = (let n = (of_char c :: nat) in 48 \<le> n \<and> n \<le> 57)"

definition digit_val :: "char \<Rightarrow> int" where
  "digit_val c = int (of_char c) - 48"

definition strip :: "string \<Rightarrow> string" where
  "strip s = rev (dropWhile is_space (rev (dropWhile is_space s)))"

text \<open>
  \<open>digits acc prev s\<close>: the digits read so far have value \<open>acc\<close>; \<open>prev\<close> tells
  whether the character just before \<open>s\<close> was a digit.
\<close>

fun digits :: "int \<Rightarrow> bool \<Rightarrow> string \<Rightarrow> int option" where
  "digits acc prev [] = (if prev then Some acc else None)"
| "digits acc prev (c # cs) =
     (if is_digit c then digits (10 * acc + digit_val c) True cs
      else if c = CHR ''_'' \<and> prev then digits acc False cs
      else None)"

text \<open>
  The interpreter's limit on the digits of a str that \<open>int\<close> reads
  (\<open>sys.get_int_max_str_digits()\<close>, 4300 unless configured otherwise, in CPython 3.11 and
  in the later releases of 3.7 to 3.10): a str with more digits raises \<open>ValueError\<close>.
\<close>

definition max_str_digits :: nat where
  "max_str_digits = 4300"

definition int_of_str :: "string \<Rightarrow> int option" where
  "int_of_str s =
     (if length (filter is_digit s) > max_str_digits then None
      else
        (case strip s of
           [] \<Rightarrow> None
         | c # cs \<Rightarrow>
             if c = CHR ''-'' then map_option uminus (digits 0 False cs)
             else if c = CHR ''+'' then digits 0 False cs
             else digits 0 False (c # cs)))"

text \<open>
  \<open>int(x)\<close> as the validator uses it, for what it raises: \<open>Inr ()\<close> when it returns
  (the source drops the value). A finite float is truncated, \<open>int\<close> of a NaN raises
  \<open>ValueError\<close> and of an infinity \<open>OverflowError\<close>; \<open>None\<close>, a list and a dict raise
  \<open>TypeError\<close>.
\<close>

fun py_int :: "json \<Rightarrow> pyexc + unit" where
  "py_int (JInt n) = Inr ()"
| "py_int (JBool b) = Inr ()"
| "py_int (JFloat (Finite r)) = Inr ()"
| "py_int (JFloat NaN) = Inl ValueError"
| "py_int (JFloat (Infinity neg)) = Inl OverflowError"
| "py_int (JStr s) = (case int_of_str s of None \<Rightarrow> Inl ValueError | Some n \<Rightarrow> Inr ())"
| "py_int JNull = Inl TypeError"
| "py_int (JArr xs) = Inl TypeError"
| "py_int (JObj kvs) = Inl TypeError"

section \<open>The body validator\<close>

text \<open>
  The loop of \<open>check_drink_body\<close> over the recipe. \<open>ValueError\<close> from \<open>int\<close> is
  caught and gives \<open>False\<close>; \<open>TypeError\<close> and \<open>OverflowError\<close> are not caught.
\<close>

fun check_recipe :: "json list \<Rightarrow> pyexc + bool" where
  "check_recipe [] = Inr True"
| "check_recipe (r # rs) =
     (case get r ''color'' of Inl e \<Rightarrow> Inl e | Inr color \<Rightarrow>
     (case get r ''name'' of Inl e \<Rightarrow> Inl e | Inr name \<Rightarrow>
     (case get r ''parts'' of Inl e \<Rightarrow> Inl e | Inr parts \<Rightarrow>
        if \<not> truthy color \<or> \<not> truthy name \<or> \<not> truthy parts then Inr False
        else (case py_int parts of
                Inl e \<Rightarrow> (if e = ValueError then Inr False else Inl e)
              | Inr n \<Rightarrow> check_recipe rs))))"

definition check_drink_body :: "json \<Rightarrow> pyexc + bool" where
  "check_drink_body body =
     (if \<not> truthy body then Inr False
      else
        (case get body ''title'' of Inl e \<Rightarrow> Inl e | Inr title \<Rightarrow>
        (case get body ''recipe'' of Inl e \<Rightarrow> Inl e | Inr recipe \<Rightarrow>
          (case recipe of
             JArr rs \<Rightarrow> check_recipe rs
           | JNull \<Rightarrow> Inr False
           | JBool b \<Rightarrow> Inr False
           | JInt n \<Rightarrow> Inr False
           | JFloat x \<Rightarrow> Inr False
           | JStr s \<Rightarrow> Inr False
           | JObj kvs \<Rightarrow> Inr False))))"

section \<open>JSON text\<close>

subsection \<open>\<open>json.dumps\<close>\<close>

text \<open>
  \<open>json.dumps\<close> with its defaults: items separated by a comma and a space, keys from
  values by a colon and a space, and every character outside the printable ASCII range
  written as an escape.
\<close>

definition dquote :: char where
  "dquote = CHR 0x22"

definition bslash :: char where
  "bslash = CHR 0x5C"

definition hex_digit :: "nat \<Rightarrow> char" where
  "hex_digit n = ''0123456789abcdef'' ! (n mod 16)"

definition escape_char :: "char \<Rightarrow> string" where
  "escape_char c = (let n = (of_char c :: nat) in
     if c = dquote then [bslash, dquote]
     else if c = bslash then [bslash, bslash]
     else if n = 10 then [bslash, CHR ''n'']
     else if n = 13 then [bslash, CHR ''r'']
     else if n = 9 then [bslash, CHR ''t'']
     else if n = 12 then [bslash, CHR ''f'']
     else if n = 8 then [bslash, CHR ''b'']
     else if 32 \<le> n \<and> n \<le> 126 then [c]
     else bslash # ''u00'' @ [hex_digit (n div 16), hex_digit n])"

definition dumps_str :: "string \<Rightarrow> string" where
  "dumps_str s = dquote # concat (map escape_char s) @ [dquote]"

fun dec_nat :: "nat \<Rightarrow> string" where
  "dec_nat n = (if n < 10 then [char_of (48 + n)]
                else dec_nat (n div 10) @ [char_of (48 + n mod 10)])"

definition dec_int :: "int \<Rightarrow> string" where
  "dec_int i = (if i < 0 then CHR ''-'' # dec_nat (nat (- i)) else dec_nat (nat i))"

fun join :: "string \<Rightarrow> string list \<Rightarrow> string" where
  "join sep [] = []"
| "join sep [x] = x"
| "join sep (x # y # ys) = x @ sep @ join sep (y # ys)"

fun json_dumps :: "json \<Rightarrow> string" where
  "json_dumps JNull = ''null''"
| "json_dumps (JBool b) = (if b then ''true'' else ''false'')"
| "json_dumps (JInt i) = dec_int i"
| "json_dumps (JFloat x) =
     (case x of
        Finite r \<Rightarrow> r
      | NaN \<Rightarrow> ''NaN''
      | Infinity neg \<Rightarrow> if neg then ''-Infinity'' else ''Infinity'')"
| "json_dumps (JStr s) = dumps_str s"
| "json_dumps (JArr xs) = ''['' @ join '', '' (map json_dumps xs) @ '']''"
| "json_dumps (JObj kvs) =
     ''{'' @ join '', '' (map (\<lambda>kv. dumps_str (fst kv) @ '': '' @ json_dumps (snd kv)) kvs)
       @ ''}''"

subsection \<open>\<open>json.loads\<close>\<close>

text \<open>
  Modelled from the spec: the Recipe Codec's \<open>decode\<close>, which lives in the model
  module of the repository; it is the reader of the text that \<open>json.dumps\<close> writes.
  A recursive-descent reader: every call consumes a character, so the length of the
  text bounds the depth of the recursion and is given as fuel. A literal with a fraction
  or an exponent is read as the float that \<open>repr\<close> writes so, which is exact for the text
  that \<open>json.dumps\<close> wrote; a literal in another spelling, or beyond the range of the
  floats, is held by its spelling. Text that holds a code point above 255 is not read.
\<close>

definition is_json_ws :: "char \<Rightarrow> bool" where
  "is_json_ws c = (c = CHR '' '' \<or> c = CHR 0x09 \<or> c = CHR 0x0A \<or> c = CHR 0x0D)"

definition skip_ws :: "string \<Rightarrow> string" where
  "skip_ws s = dropWhile is_json_ws s"

definition hex_val :: "char \<Rightarrow> nat option" where
  "hex_val c = (let n = (of_char c :: nat) in
     if 48 \<le> n \<and> n \<le> 57 then Some (n - 48)
     else if 97 \<le> n \<and> n \<le> 102 then Some (n - 87)
     else if 65 \<le> n \<and> n \<le> 70 then Some (n - 55)
     else None)"

definition unescape :: "char \<Rightarrow> char option" where
  "unescape e =
     (if e = dquote then Some dquote
      else if e = bslash then Some bslash
      else if e = CHR ''/'' then Some CHR ''/''
      else if e = CHR ''n'' then Some (CHR 0x0A)
      else if e = CHR ''r'' then Some (CHR 0x0D)
      else if e = CHR ''t'' then Some (CHR 0x09)
      else if e = CHR ''f'' then Some (CHR 0x0C)
      else if e = CHR ''b'' then Some (CHR 0x08)
      else None)"

definition unicode_escape :: "char \<Rightarrow> char \<Rightarrow> char \<Rightarrow> char \<Rightarrow> char option" where
  "unicode_escape a b c d =
     (case (hex_val a, hex_val b, hex_val c, hex_val d) of
        (Some h3, Some h2, Some h1, Some h0) \<Rightarrow>
          if h3 = 0 \<and> h2 = 0 then Some (char_of (16 * h1 + h0)) else None
      | _ \<Rightarrow> None)"

text \<open>The characters of a string after its opening quote, and the text after its closing quote.\<close>

fun scan_str :: "string \<Rightarrow> (string \<times> string) option" where
  "scan_str [] = None"
| "scan_str (c # cs) =
     (if c = dquote then Some ([], cs)
      else if c = bslash then
        (case cs of
           [] \<Rightarrow> None
         | e # cs1 \<Rightarrow>
             if e = CHR ''u'' then
               (case cs1 of
                  a # b # c # d # cs2 \<Rightarrow>
                    (case unicode_escape a b c d of
                       None \<Rightarrow> None
                     | Some x \<Rightarrow> map_option (\<lambda>(s, r). (x # s, r)) (scan_str cs2))
                | _ \<Rightarrow> None)
             else
               (case unescape e of
                  None \<Rightarrow> None
                | Some x \<Rightarrow> map_option (\<lambda>(s, r). (x # s, r)) (scan_str cs1)))
      else if (of_char c :: nat) < 32 then None
      else map_option (\<lambda>(s, r). (c # s, r)) (scan_str cs))"

text \<open>
  A number: an optional minus, then \<open>0\<close> or a digit string that does not start with
  \<open>0\<close>, then an optional fraction and an optional exponent, each with a digit at least.
  Without fraction and exponent it is an int, read by \<open>int\<close> and so under its limit on
  the digits; otherwise a float.
\<close>

definition scan_frac :: "string \<Rightarrow> string \<times> string" where
  "scan_frac r =
     (case r of
        [] \<Rightarrow> ([], r)
      | c # r1 \<Rightarrow>
          if c = CHR ''.'' \<and> takeWhile is_digit r1 \<noteq> []
          then (c # takeWhile is_digit r1, dropWhile is_digit r1)
          else ([], r))"

definition scan_exp :: "string \<Rightarrow> string \<times> string" where
  "scan_exp r =
     (case r of
        [] \<Rightarrow> ([], r)
      | e # r1 \<Rightarrow>
          if e = CHR ''e'' \<or> e = CHR ''E'' then
            (let sg = (if r1 \<noteq> [] \<and> (hd r1 = CHR ''+'' \<or> hd r1 = CHR ''-'') then [hd r1] else []);
                 r2 = drop (length sg) r1
             in if takeWhile is_digit r2 = [] then ([], r)
                else (e # sg @ takeWhile is_digit r2, dropWhile is_digit r2))
          else ([], r))"

definition scan_number :: "string \<Rightarrow> (json \<times> string) option" where
  "scan_number s =
     (let neg = (s \<noteq> [] \<and> hd s = CHR ''-'');
          t = (if neg then tl s else s);
          ip = (if t \<noteq> [] \<and> hd t = CHR ''0'' then ''0'' else takeWhile is_digit t);
          (fr, r1) = scan_frac (drop (length ip) t);
          (ex, r2) = scan_exp r1
      in if ip = [] then None
         else if fr = [] \<and> ex = [] then
           (if length ip > max_str_digits then None
            else (case digits 0 False ip of
                    None \<Rightarrow> None
                  | Some n \<Rightarrow> Some (JInt (if neg then - n else n), r2)))
         else Some (JFloat (Finite ((if neg then ''-'' else []) @ ip @ fr @ ex)), r2))"

text \<open>A dict keeps the place of a key's first insertion and the value of its last.\<close>

fun dict_set :: "string \<Rightarrow> json \<Rightarrow> (string \<times> json) list \<Rightarrow> (string \<times> json) list" where
  "dict_set k v [] = [(k, v)]"
| "dict_set k v (p # ps) = (if fst p = k then (k, v) # ps else p # dict_set k v ps)"

fun scan_value :: "nat \<Rightarrow> string \<Rightarrow> (json \<times> string) option"
  and scan_items :: "nat \<Rightarrow> json list \<Rightarrow> string \<Rightarrow> (json \<times> string) option"
  and scan_members :: "nat \<Rightarrow> (string \<times> json) list \<Rightarrow> string \<Rightarrow> (json \<times> string) option"
where
  "scan_value 0 s = None"
| "scan_value (Suc f) s =
     (case s of
        [] \<Rightarrow> None
      | c # cs \<Rightarrow>
          if c = dquote then map_option (\<lambda>(x, r). (JStr x, r)) (scan_str cs)
          else if c = CHR ''['' then
            (case skip_ws cs of
               [] \<Rightarrow> None
             | d # ds \<Rightarrow> if d = CHR '']'' then Some (JArr [], ds)
                         else scan_items f [] (d # ds))
          else if c = CHR ''{'' then
            (case skip_ws cs of
               [] \<Rightarrow> None
             | d # ds \<Rightarrow> if d = CHR ''}'' then Some (JObj [], ds)
                         else scan_members f [] (d # ds))
          else if take 4 s = ''null'' then Some (JNull, drop 4 s)
          else if take 4 s = ''true'' then Some (JBool True, drop 4 s)
          else if take 5 s = ''false'' then Some (JBool False, drop 5 s)
          else if take 3 s = ''NaN'' then Some (JFloat NaN, drop 3 s)
          else if take 8 s = ''Infinity'' then Some (JFloat (Infinity False), drop 8 s)
          else if take 9 s = ''-Infinity'' then Some (JFloat (Infinity True), drop 9 s)
          else scan_number s)"
| "scan_items 0 acc s = None"
| "scan_items (Suc f) acc s =
     (case scan_value f s of
        None \<Rightarrow> None
      | Some (v, r) \<Rightarrow>
          (case skip_ws r of
             [] \<Rightarrow> None
           | d # ds \<Rightarrow>
               if d = CHR '','' then scan_items f (acc @ [v]) (skip_ws ds)
               else if d = CHR '']'' then Some (JArr (acc @ [v]), ds)
               else None))"
| "scan_members 0 acc s = None"
| "scan_members (Suc f) acc s =
     (case s of
        [] \<Rightarrow> None
      | q # qs \<Rightarrow>
          if q \<noteq> dquote then None
          else
            (case scan_str qs of
               None \<Rightarrow> None
             | Some (k, r) \<Rightarrow>
                 (case skip_ws r of
                    [] \<Rightarrow> None
                  | c # cs \<Rightarrow>
                      if c \<noteq> CHR '':'' then None
                      else
                        (case scan_value f (skip_ws cs) of
                           None \<Rightarrow> None
                         | Some (v, r1) \<Rightarrow>
                             (case skip_ws r1 of
                                [] \<Rightarrow> None
                              | d # ds \<Rightarrow>
                                  if d = CHR '','' then
                                    scan_members f (dict_set k v acc) (skip_ws ds)
                                  else if d = CHR ''}'' then
                                    Some (JObj (dict_set k v acc), ds)
                                  else None)))))"

definition json_loads :: "string \<Rightarrow> pyexc + json" where
  "json_loads s =
     (case scan_value (Suc (length s)) (skip_ws s) of
        None \<Rightarrow> Inl ValueError
      | Some (v, r) \<Rightarrow> if skip_ws r = [] then Inr v else Inl ValueError)"

section \<open>The record store\<close>

text \<open>
  Modelled from the spec: the \<open>Drink\<close> model class and its table (module
  \<open>database.models\<close>). A drink has the system-generated id, the title and the recipe as
  encoded text. The title of a loaded object is the Python value last assigned to it; the
  column holds text, so only a str can be written. Reading raises when the store cannot be
  read, writing when it cannot be written; the handlers catch both.
\<close>

record drink =
  drink_id :: int
  title :: json
  recipe :: string

record store =
  can_read :: bool
  can_write :: bool
  rows :: "drink list"

text \<open>Modelled from the spec: \<open>Drink.query.all()\<close>, the store's \<open>listAll\<close>; it never gives \<open>None\<close>.\<close>

definition query_all :: "store \<Rightarrow> pyexc + drink list option" where
  "query_all st = (if can_read st then Inr (Some (rows st)) else Inl SQLAlchemyError)"

text \<open>
  Modelled from the spec: \<open>Drink.query.filter(Drink.id == id).one_or_none()\<close>, the store's
  \<open>getById\<close>; \<open>one_or_none\<close> raises when several rows match.
\<close>

definition query_one_or_none :: "store \<Rightarrow> int \<Rightarrow> pyexc + drink option" where
  "query_one_or_none st i =
     (if \<not> can_read st then Inl SQLAlchemyError
      else (case filter (\<lambda>d. drink_id d = i) (rows st) of
              [] \<Rightarrow> Inr None
            | [d] \<Rightarrow> Inr (Some d)
            | d # e # ds \<Rightarrow> Inl SQLAlchemyError))"

text \<open>Modelled from the spec: the id that the store assigns to a new row, above every id in use.\<close>

definition new_id :: "drink list \<Rightarrow> int" where
  "new_id ds = fold max (map drink_id ds) 0 + 1"

text \<open>Modelled from the spec: \<open>Drink(title=title, recipe=recipe).insert()\<close>, the store's \<open>create\<close>.\<close>

definition insert_drink :: "store \<Rightarrow> string \<Rightarrow> string \<Rightarrow> pyexc + drink \<times> store" where
  "insert_drink st t r =
     (if \<not> can_write st then Inl SQLAlchemyError
      else (let d = \<lparr>drink_id = new_id (rows st), title = JStr t, recipe = r\<rparr>
            in Inr (d, st\<lparr>rows := rows st @ [d]\<rparr>)))"

definition is_str :: "json \<Rightarrow> bool" where
  "is_str v = (case v of JStr s \<Rightarrow> True | _ \<Rightarrow> False)"

text \<open>
  Modelled from the spec: \<open>drink.update()\<close>, the store's \<open>update\<close>, which writes the
  loaded object back in place of the row with its id.
\<close>

definition update_drink :: "store \<Rightarrow> drink \<Rightarrow> pyexc + drink \<times> store" where
  "update_drink st d =
     (if \<not> can_write st then Inl SQLAlchemyError
      else if \<not> is_str (title d) then Inl SQLAlchemyError
      else Inr (d, st\<lparr>rows := map (\<lambda>r. if drink_id r = drink_id d then d else r) (rows st)\<rparr>))"

text \<open>Modelled from the spec: \<open>drink.delete()\<close>, the store's \<open>delete\<close>.\<close>

definition delete_drink :: "store \<Rightarrow> drink \<Rightarrow> pyexc + store" where
  "delete_drink st d =
     (if \<not> can_write st then Inl SQLAlchemyError
      else Inr (st\<lparr>rows := filter (\<lambda>r. drink_id r \<noteq> drink_id d) (rows st)\<rparr>))"

subsection \<open>The two views of a drink\<close>

text \<open>\<open>r[key]\<close> on a decoded step.\<close>

fun getitem :: "json \<Rightarrow> string \<Rightarrow> pyexc + json" where
  "getitem (JObj kvs) key = (case map_of kvs key of None \<Rightarrow> Inl KeyError | Some v \<Rightarrow> Inr v)"
| "getitem _ key = Inl TypeError"

text \<open>A list comprehension: the first exception ends it.\<close>

fun comprehension :: "('a \<Rightarrow> pyexc + 'b) \<Rightarrow> 'a list \<Rightarrow> pyexc + 'b list" where
  "comprehension f [] = Inr []"
| "comprehension f (x # xs) =
     (case f x of
        Inl e \<Rightarrow> Inl e
      | Inr y \<Rightarrow> (case comprehension f xs of Inl e \<Rightarrow> Inl e | Inr ys \<Rightarrow> Inr (y # ys)))"

text \<open>Modelled from the spec: \<open>shortView\<close>, each step as \<open>{color, name}\<close>.\<close>

definition short_step :: "json \<Rightarrow> pyexc + json" where
  "short_step r =
     (case getitem r ''color'' of Inl e \<Rightarrow> Inl e | Inr c \<Rightarrow>
     (case getitem r ''name'' of Inl e \<Rightarrow> Inl e | Inr n \<Rightarrow>
        Inr (JObj [(''color'', c), (''name'', n)])))"

text \<open>Modelled from the spec: \<open>longView\<close>, each step as \<open>{color, name, parts}\<close>.\<close>

definition long_step :: "json \<Rightarrow> pyexc + json" where
  "long_step r =
     (case getitem r ''color'' of Inl e \<Rightarrow> Inl e | Inr c \<Rightarrow>
     (case getitem r ''name'' of Inl e \<Rightarrow> Inl e | Inr n \<Rightarrow>
     (case getitem r ''parts'' of Inl e \<Rightarrow> Inl e | Inr p \<Rightarrow>
        Inr (JObj [(''color'', c), (''name'', n), (''parts'', p)]))))"

text \<open>
  Modelled from the spec: a view of the recipe text, which decodes it and renders its
  steps one by one.
\<close>

definition view_recipe :: "(json \<Rightarrow> pyexc + json) \<Rightarrow> string \<Rightarrow> pyexc + json" where
  "view_recipe f text =
     (case json_loads text of
        Inl e \<Rightarrow> Inl e
      | Inr v \<Rightarrow>
          (case v of
             JArr steps \<Rightarrow>
               (case comprehension f steps of Inl e \<Rightarrow> Inl e | Inr rs \<Rightarrow> Inr (JArr rs))
           | _ \<Rightarrow> Inl TypeError))"

text \<open>Modelled from the spec: \<open>Drink.short()\<close> and \<open>Drink.long()\<close> of the model class.\<close>

definition short :: "drink \<Rightarrow> pyexc + json" where
  "short d =
     (case view_recipe short_step (recipe d) of
        Inl e \<Rightarrow> Inl e
      | Inr r \<Rightarrow> Inr (JObj [(''id'', JInt (drink_id d)), (''title'', title d),
                             (''recipe'', r)]))"

definition long :: "drink \<Rightarrow> pyexc + json" where
  "long d =
     (case view_recipe long_step (recipe d) of
        Inl e \<Rightarrow> Inl e
      | Inr r \<Rightarrow> Inr (JObj [(''id'', JInt (drink_id d)), (''title'', title d),
                             (''recipe'', r)]))"

section \<open>The authorization gate\<close>

text \<open>
  Modelled from the spec: the decorator \<open>requires_auth\<close> (module \<open>auth.auth\<close>). What the
  identity provider's check of the bearer token gave is an input of the request: an
  \<open>AuthError\<close> with its status code and description, or the granted permissions. The
  spec gives a missing permission the code 401 or 403; it is 403 here.
\<close>

datatype credentials =
    Rejected nat string
  | Verified "string list"

definition requires_auth :: "string \<Rightarrow> credentials \<Rightarrow> pyexc + string list" where
  "requires_auth permission c =
     (case c of
        Rejected code description \<Rightarrow> Inl (AuthError code description)
      | Verified permissions \<Rightarrow>
          if permission \<in> set permissions then Inr permissions
          else Inl (AuthError 403 ''Permission not found.''))"

section \<open>The request handlers\<close>

type_synonym outcome = "(pyexc + json) \<times> store"

text \<open>\<open>GET /drinks\<close>\<close>

definition get_drinks :: "store \<Rightarrow> outcome" where
  "get_drinks st =
     (case query_all st of
        Inl e \<Rightarrow> (Inl (Abort 500), st)
      | Inr drinks \<Rightarrow>
          (case drinks of
             None \<Rightarrow> (Inl (Abort 404), st)
           | Some ds \<Rightarrow>
               (case comprehension short ds of
                  Inl e \<Rightarrow> (Inl e, st)
                | Inr js \<Rightarrow>
                    (Inr (JObj [(''success'', JBool True), (''drinks'', JArr js)]), st))))"

text \<open>\<open>GET /drinks-detail\<close>\<close>

definition get_drinks_details :: "string list \<Rightarrow> store \<Rightarrow> outcome" where
  "get_drinks_details payload st =
     (case query_all st of
        Inl e \<Rightarrow> (Inl (Abort 500), st)
      | Inr drinks \<Rightarrow>
          (case drinks of
             None \<Rightarrow> (Inl (Abort 404), st)
           | Some ds \<Rightarrow>
               (case comprehension long ds of
                  Inl e \<Rightarrow> (Inl e, st)
                | Inr js \<Rightarrow>
                    (Inr (JObj [(''success'', JBool True), (''drinks'', JArr js)]), st))))"

text \<open>\<open>POST /drinks\<close>\<close>

definition post_drink :: "string list \<Rightarrow> store \<Rightarrow> json \<Rightarrow> outcome" where
  "post_drink payload st body =
     (case check_drink_body body of
        Inl e \<Rightarrow> (Inl e, st)
      | Inr ok \<Rightarrow>
          if \<not> ok then (Inl (Abort 400), st)
          else
            (case get body ''title'' of Inl e \<Rightarrow> (Inl e, st) | Inr t \<Rightarrow>
            (case get body ''recipe'' of Inl e \<Rightarrow> (Inl e, st) | Inr r \<Rightarrow>
            (case insert_drink st (json_dumps t) (json_dumps r) of
               Inl e \<Rightarrow> (Inl (Abort 422), st)
             | Inr (d, st1) \<Rightarrow>
                 (case long d of
                    Inl e \<Rightarrow> (Inl e, st1)
                  | Inr j \<Rightarrow>
                      (Inr (JObj [(''success'', JBool True), (''drinks'', j)]), st1))))))"

text \<open>
  \<open>PATCH /drinks/<id>\<close>. The loop variable of \<open>for i in enumerate(recipe)\<close> is the pair
  of a position and a step, and a list or a str indexed by a pair raises \<open>TypeError\<close>.
\<close>

definition list_getitem :: "json list \<Rightarrow> nat \<times> json \<Rightarrow> pyexc + json" where
  "list_getitem xs i = Inl TypeError"

text \<open>\<open>drink.recipe[i].attr = value\<close>, where \<open>drink.recipe\<close> is the str of the text column.\<close>

definition set_step_attr :: "drink \<Rightarrow> nat \<times> json \<Rightarrow> string \<Rightarrow> json \<Rightarrow> pyexc + drink" where
  "set_step_attr d i attr v = Inl TypeError"

definition patch_field :: "json \<Rightarrow> drink \<Rightarrow> nat \<times> json \<Rightarrow> string \<Rightarrow> pyexc + drink" where
  "patch_field r d i attr =
     (case get r attr of
        Inl e \<Rightarrow> Inl e
      | Inr v \<Rightarrow> if truthy v then set_step_attr d i attr v else Inr d)"

fun patch_steps :: "json list \<Rightarrow> (nat \<times> json) list \<Rightarrow> drink \<Rightarrow> pyexc + drink" where
  "patch_steps steps [] d = Inr d"
| "patch_steps steps (i # is) d =
     (case list_getitem steps i of Inl e \<Rightarrow> Inl e | Inr rc \<Rightarrow>
     (case patch_field rc d i ''color'' of Inl e \<Rightarrow> Inl e | Inr d1 \<Rightarrow>
     (case list_getitem steps i of Inl e \<Rightarrow> Inl e | Inr rn \<Rightarrow>
     (case patch_field rn d1 i ''name'' of Inl e \<Rightarrow> Inl e | Inr d2 \<Rightarrow>
     (case list_getitem steps i of Inl e \<Rightarrow> Inl e | Inr rp \<Rightarrow>
     (case patch_field rp d2 i ''parts'' of Inl e \<Rightarrow> Inl e | Inr d3 \<Rightarrow>
        patch_steps steps is d3))))))"

definition patch_drink :: "string list \<Rightarrow> store \<Rightarrow> int \<Rightarrow> json \<Rightarrow> outcome" where
  "patch_drink payload st i body =
     (case query_one_or_none st i of
        Inl e \<Rightarrow> (Inl (Abort 500), st)
      | Inr found \<Rightarrow>
          (case found of
             None \<Rightarrow> (Inl (Abort 404), st)
           | Some d \<Rightarrow>
               if \<not> truthy body then (Inl (Abort 400), st)
               else
                 (case get body ''title'' of Inl e \<Rightarrow> (Inl e, st) | Inr t \<Rightarrow>
                 (let d1 = (if truthy t then d\<lparr>title := t\<rparr> else d) in
                 (case get body ''recipe'' of Inl e \<Rightarrow> (Inl e, st) | Inr r \<Rightarrow>
                 (case (if truthy r then
                          (case r of
                             JArr rs \<Rightarrow> patch_steps rs (enumerate 0 rs) d1
                           | _ \<Rightarrow> Inl (Abort 400))
                        else Inr d1) of
                    Inl e \<Rightarrow> (Inl e, st)
                  | Inr d2 \<Rightarrow>
                      (case update_drink st d2 of
                         Inl e \<Rightarrow> (Inl (Abort 500), st)
                       | Inr (d3, st1) \<Rightarrow>
                           (case long d3 of
                              Inl e \<Rightarrow> (Inl e, st1)
                            | Inr j \<Rightarrow>
                                (Inr (JObj [(''success'', JBool True),
                                            (''drinks'', JArr [j])]), st1)))))))))"

text \<open>\<open>DELETE /drinks/<id>\<close>\<close>

definition delete_drinks :: "string list \<Rightarrow> store \<Rightarrow> int \<Rightarrow> outcome" where
  "delete_drinks payload st i =
     (case query_one_or_none st i of
        Inl e \<Rightarrow> (Inl (Abort 500), st)
      | Inr found \<Rightarrow>
          (case found of
             None \<Rightarrow> (Inl (Abort 404), st)
           | Some d \<Rightarrow>
               (case delete_drink st d of
                  Inl e \<Rightarrow> (Inl (Abort 500), st)
                | Inr st1 \<Rightarrow>
                    (Inr (JObj [(''success'', JBool True), (''delete'', JInt i)]), st1))))"

section \<open>Responses and error handlers\<close>

text \<open>
  A response is a status code and a body. In Flask \<open>jsonify(x)\<close> alone is a response
  with status 200; a view or handler that returns \<open>jsonify(x), code\<close> sets the status to
  \<open>code\<close>. \<open>abort(code)\<close> with no handler registered for \<open>code\<close> gives the
  framework's own page for that code.
\<close>

datatype content = Json json | DefaultPage

record response =
  status :: nat
  content :: content

definition jsonify :: "json \<Rightarrow> response" where
  "jsonify j = \<lparr>status = 200, content = Json j\<rparr>"

definition with_status :: "response \<Rightarrow> nat \<Rightarrow> response" where
  "with_status r code = r\<lparr>status := code\<rparr>"

definition failure :: "nat \<Rightarrow> string \<Rightarrow> json" where
  "failure code message =
     JObj [(''success'', JBool False), (''error'', JInt (int code)), (''message'', JStr message)]"

text \<open>The handler of 422.\<close>

definition unprocessable :: response where
  "unprocessable = with_status (jsonify (failure 422 ''unprocessable'')) 422"

text \<open>The handler of 404; the source names it \<open>unprocessable\<close> as well.\<close>

definition unprocessable_404 :: response where
  "unprocessable_404 = with_status (jsonify (failure 404 ''resource not found'')) 404"

definition auth_error :: "nat \<Rightarrow> string \<Rightarrow> response" where
  "auth_error status_code description =
     with_status (jsonify (failure status_code description)) status_code"

text \<open>The handler of 500 returns \<open>jsonify(...)\<close> with no status beside it.\<close>

definition server_error :: response where
  "server_error = jsonify (failure 500 ''Something went wrong.'')"

text \<open>
  What Flask does with an exception that leaves a view: the handler registered for it,
  the default page for an aborted code without a handler, and the handler of 500 for any
  other exception (the application not being run in debug mode, where such an exception
  is raised again instead).
\<close>

fun handle_exception :: "pyexc \<Rightarrow> response" where
  "handle_exception (Abort code) =
     (if code = 422 then unprocessable
      else if code = 404 then unprocessable_404
      else if code = 500 then server_error
      else \<lparr>status = code, content = DefaultPage\<rparr>)"
| "handle_exception (AuthError code description) = auth_error code description"
| "handle_exception _ = server_error"

definition respond :: "outcome \<Rightarrow> response \<times> store" where
  "respond out = (case fst out of Inl e \<Rightarrow> handle_exception e | Inr j \<Rightarrow> jsonify j, snd out)"

section \<open>Routing\<close>

text \<open>
  The routes of the application. A view behind \<open>requires_auth\<close> runs only when the gate
  lets the request through, and is handed the payload of the token, which no view reads
  (it is the list of granted permissions here); \<open>GET /drinks\<close> has no such decorator.
  The \<open>before_request\<close> hook only rewrites the headers of the request and is left out.
\<close>

datatype route =
    GetDrinks
  | GetDrinksDetail
  | PostDrinks
  | PatchDrinks int
  | DeleteDrinks int

record request =
  route :: route
  credentials :: credentials
  get_json :: json

definition guarded :: "string \<Rightarrow> request \<Rightarrow> store \<Rightarrow> (string list \<Rightarrow> outcome) \<Rightarrow> response \<times> store" where
  "guarded permission rq st view =
     (case requires_auth permission (credentials rq) of
        Inl e \<Rightarrow> (handle_exception e, st)
      | Inr payload \<Rightarrow> respond (view payload))"

definition serve :: "store \<Rightarrow> request \<Rightarrow> response \<times> store" where
  "serve st rq =
     (case route rq of
        GetDrinks \<Rightarrow> respond (get_drinks st)
      | GetDrinksDetail \<Rightarrow>
          guarded ''get:drinks-detail'' rq st (\<lambda>payload. get_drinks_details payload st)
      | PostDrinks \<Rightarrow>
          guarded ''post:drinks'' rq st (\<lambda>payload. post_drink payload st (get_json rq))
      | PatchDrinks i \<Rightarrow>
          guarded ''patch:drinks'' rq st (\<lambda>payload. patch_drink payload st i (get_json rq))
      | DeleteDrinks i \<Rightarrow>
          guarded ''delete:drinks'' rq st (\<lambda>payload. delete_drinks payload st i))"

section \<open>Predicates of the statements\<close>

text \<open>The value of a key of a dict, \<open>None\<close> when it is absent.\<close>

definition field :: "json \<Rightarrow> string \<Rightarrow> json" where
  "field r key = (case get r key of Inl e \<Rightarrow> JNull | Inr v \<Rightarrow> v)"

definition is_dict :: "json \<Rightarrow> bool" where
  "is_dict v = (case v of JObj kvs \<Rightarrow> True | _ \<Rightarrow> False)"

definition is_list :: "json \<Rightarrow> bool" where
  "is_list v = (case v of JArr xs \<Rightarrow> True | _ \<Rightarrow> False)"

text \<open>\<open>None\<close>, a bool, a number or a str: a value that is neither a list nor a dict.\<close>

definition scalar :: "json \<Rightarrow> bool" where
  "scalar v = (\<not> is_list v \<and> \<not> is_dict v)"

text \<open>A step that is a dict with a color and a name that pass \<open>if not color or not name\<close>.\<close>

definition is_infinity :: "json \<Rightarrow> bool" where
  "is_infinity v = (case v of JFloat (Infinity neg) \<Rightarrow> True | _ \<Rightarrow> False)"

definition named_step :: "json \<Rightarrow> bool" where
  "named_step r = (is_dict r \<and> truthy (field r ''color'') \<and> truthy (field r ''name''))"

text \<open>
  The spec's words for a \<open>parts\<close> value that is accepted: a string or a number that can
  be parsed as an integer.
\<close>

definition spec_parts_parseable :: "json \<Rightarrow> bool" where
  "spec_parts_parseable p =
     (case p of
        JInt n \<Rightarrow> True
      | JFloat x \<Rightarrow> (case x of Finite r \<Rightarrow> True | _ \<Rightarrow> False)
      | JStr s \<Rightarrow> int_of_str s \<noteq> None
      | _ \<Rightarrow> False)"

text \<open>
  What the validator accepts among the values that are neither a list, a dict nor an
  infinity: a non-zero int, a finite float that is not zero, \<open>True\<close>, or a str that
  \<open>int\<close> reads.
\<close>

definition parts_accepted :: "json \<Rightarrow> bool" where
  "parts_accepted p =
     (case p of
        JInt n \<Rightarrow> n \<noteq> 0
      | JFloat x \<Rightarrow> (case x of Finite r \<Rightarrow> r \<noteq> ''0.0'' \<and> r \<noteq> ''-0.0'' | _ \<Rightarrow> False)
      | JBool b \<Rightarrow> b
      | JStr s \<Rightarrow> int_of_str s \<noteq> None
      | _ \<Rightarrow> False)"

text \<open>The response to \<open>abort(400)\<close>, for which the application registers no handler.\<close>

definition bad_request :: response where
  "bad_request = \<lparr>status = 400, content = DefaultPage\<rparr>"

text \<open>A step of a short view: exactly a color and a name.\<close>

definition short_view_step :: "json \<Rightarrow> bool" where
  "short_view_step r = (case r of JObj kvs \<Rightarrow> map fst kvs = [''color'', ''name''] | _ \<Rightarrow> False)"

definition short_view_drink :: "json \<Rightarrow> bool" where
  "short_view_drink j =
     (case field j ''recipe'' of JArr steps \<Rightarrow> list_all short_view_step steps | _ \<Rightarrow> False)"

text \<open>Requests and stores of the examples.\<close>

definition all_permissions :: credentials where
  "all_permissions =
     Verified [''get:drinks-detail'', ''post:drinks'', ''patch:drinks'', ''delete:drinks'']"

definition empty_store :: store where
  "empty_store = \<lparr>can_read = True, can_write = True, rows = []\<rparr>"

definition milk_step :: "json \<Rightarrow> json" where
  "milk_step p = JObj [(''color'', JStr ''white''), (''name'', JStr ''milk''), (''parts'', p)]"

definition latte_body :: json where
  "latte_body = JObj [(''title'', JStr ''Latte''), (''recipe'', JArr [milk_step (JInt 3)])]"

definition latte_text :: string where
  "latte_text = json_dumps (JArr [milk_step (JInt 3)])"

text \<open>The store after the latte has been posted to the empty store.\<close>

definition latte_store :: store where
  "latte_store = \<lparr>can_read = True, can_write = True,
     rows = [\<lparr>drink_id = 1, title = JStr (dumps_str ''Latte''), recipe = latte_text\<rparr>]\<rparr>"

section \<open>Properties\<close>

subsection \<open>Auxiliary facts\<close>

lemma serve_post:
  "route rq = PostDrinks \<Longrightarrow> credentials rq = Verified ps \<Longrightarrow> ''post:drinks'' \<in> set ps \<Longrightarrow>
   serve st rq = respond (post_drink ps st (get_json rq))"
  by (simp add: serve_def guarded_def requires_auth_def)

lemma serve_patch:
  "route rq = PatchDrinks i \<Longrightarrow> credentials rq = Verified ps \<Longrightarrow> ''patch:drinks'' \<in> set ps \<Longrightarrow>
   serve st rq = respond (patch_drink ps st i (get_json rq))"
  by (simp add: serve_def guarded_def requires_auth_def)

lemma serve_delete:
  "route rq = DeleteDrinks i \<Longrightarrow> credentials rq = Verified ps \<Longrightarrow> ''delete:drinks'' \<in> set ps \<Longrightarrow>
   serve st rq = respond (delete_drinks ps st i)"
  by (simp add: serve_def guarded_def requires_auth_def)

lemma get_dict: "is_dict r \<Longrightarrow> get r key = Inr (field r key)"
  by (cases r) (simp_all add: is_dict_def field_def)

lemma get_not_dict: "\<not> is_dict r \<Longrightarrow> get r key = Inl AttributeError"
  by (cases r) (simp_all add: is_dict_def)

lemma py_int_not_scalar:
  "\<not> scalar p \<Longrightarrow> py_int p = Inl TypeError"
  by (cases p) (auto simp: scalar_def is_list_def is_dict_def)

lemma int_of_str_empty: "int_of_str [] = None"
  by (simp add: int_of_str_def strip_def)

lemma check_step_scalar:
  assumes "named_step r" and "scalar (field r ''parts'')"
    and "\<not> is_infinity (field r ''parts'')"
  shows "check_recipe (r # rs) =
           (if parts_accepted (field r ''parts'') then check_recipe rs else Inr False)"
proof -
  from assms(1) have d: "is_dict r" and c: "truthy (field r ''color'')"
    and n: "truthy (field r ''name'')"
    by (simp_all add: named_step_def)
  show ?thesis
  proof (cases "field r ''parts''")
    case (JFloat x)
    with assms(3) show ?thesis
      using d c n by (cases x) (auto simp: get_dict parts_accepted_def is_infinity_def)
  next
    case (JStr s)
    then show ?thesis
      using d c n by (auto simp: get_dict parts_accepted_def int_of_str_empty)
  next
    case (JArr xs)
    with assms(2) show ?thesis by (simp add: scalar_def is_list_def)
  next
    case (JObj kvs)
    with assms(2) show ?thesis by (simp add: scalar_def is_dict_def)
  qed (use d c n in \<open>simp_all add: get_dict parts_accepted_def\<close>)
qed

lemma check_recipe_named:
  "list_all (\<lambda>r. named_step r \<and> scalar (field r ''parts'') \<and>
                  \<not> is_infinity (field r ''parts'')) steps \<Longrightarrow>
   check_recipe steps = Inr (list_all (\<lambda>r. parts_accepted (field r ''parts'')) steps)"
proof (induction steps)
  case Nil
  then show ?case by simp
next
  case (Cons r rs)
  then have "named_step r" and "scalar (field r ''parts'')"
    and "\<not> is_infinity (field r ''parts'')"
    and "check_recipe rs = Inr (list_all (\<lambda>r. parts_accepted (field r ''parts'')) rs)"
    by simp_all
  then show ?case
    by (simp add: check_step_scalar del: check_recipe.simps)
qed

lemma check_recipe_prefix:
  "check_recipe pre = Inr True \<Longrightarrow> check_recipe (pre @ rs) = check_recipe rs"
proof (induction pre)
  case Nil
  then show ?case by simp
next
  case (Cons r pre)
  then show ?case
    by (auto split: sum.splits if_splits)
qed

lemma comprehension_Inl:
  "comprehension f xs = Inl e \<Longrightarrow> \<exists>x. f x = Inl e"
  by (induction xs) (auto split: sum.splits)

lemma getitem_Inl: "getitem r k = Inl e \<Longrightarrow> e = KeyError \<or> e = TypeError"
  by (cases r) (auto split: option.splits)

lemma long_step_Inl: "long_step r = Inl e \<Longrightarrow> e = KeyError \<or> e = TypeError"
  by (auto simp: long_step_def split: sum.splits dest: getitem_Inl)

lemma short_step_Inl: "short_step r = Inl e \<Longrightarrow> e = KeyError \<or> e = TypeError"
  by (auto simp: short_step_def split: sum.splits dest: getitem_Inl)

lemma json_loads_Inl: "json_loads s = Inl e \<Longrightarrow> e = ValueError"
  by (auto simp: json_loads_def split: option.splits if_splits)

lemma long_Inl: "long d = Inl e \<Longrightarrow> e = ValueError \<or> e = KeyError \<or> e = TypeError"
  by (auto simp: long_def view_recipe_def split: sum.splits json.splits
      dest!: json_loads_Inl comprehension_Inl long_step_Inl)

lemma long_raise_status: "long d = Inl e \<Longrightarrow> handle_exception e = server_error"
  by (auto dest!: long_Inl)

lemma status_server_error: "status server_error = 200"
  by (simp add: server_error_def jsonify_def)

lemma post_drink_rejected:
  "check_drink_body body = Inr False \<Longrightarrow> respond (post_drink ps st body) = (bad_request, st)"
  by (simp add: post_drink_def respond_def bad_request_def)

lemma post_drink_raised:
  "check_drink_body body = Inl e \<Longrightarrow> respond (post_drink ps st body) = (handle_exception e, st)"
  by (simp add: post_drink_def respond_def)

lemma check_True_dict: "check_drink_body body = Inr True \<Longrightarrow> is_dict body"
  by (cases body) (auto simp: check_drink_body_def is_dict_def split: if_splits)

lemma post_drink_accepted:
  assumes "check_drink_body body = Inr True"
  shows "status (fst (respond (post_drink ps st body))) \<noteq> 400"
proof -
  have "is_dict body" using assms by (rule check_True_dict)
  then show ?thesis
    using assms
    by (auto simp: post_drink_def respond_def insert_drink_def Let_def unprocessable_def
        with_status_def jsonify_def status_server_error get_dict
        split: sum.splits prod.splits dest!: long_raise_status)
qed

lemma check_body_list:
  "map_of kvs ''recipe'' = Some (JArr steps) \<Longrightarrow> check_drink_body (JObj kvs) = check_recipe steps"
  by (auto simp: check_drink_body_def)

lemma filter_single_map:
  "filter P xs = [d] \<Longrightarrow> map (\<lambda>r. if P r then f d else r) xs = map (\<lambda>r. if P r then f r else r) xs"
proof (induction xs)
  case Nil
  then show ?case by simp
next
  case (Cons x xs)
  show ?case
  proof (cases "P x")
    case True
    with Cons.prems have "x = d" and "filter P xs = []" by simp_all
    then have "\<forall>r\<in>set xs. \<not> P r" by (simp add: filter_empty_conv)
    then have "map (\<lambda>r. if P r then f d else r) xs = map (\<lambda>r. if P r then f r else r) xs"
      by simp
    with True \<open>x = d\<close> show ?thesis by simp
  next
    case False
    with Cons show ?thesis by simp
  qed
qed

lemma filter_single_id:
  assumes "filter (\<lambda>d. drink_id d = i) xs = [d]"
  shows "drink_id d = i"
proof -
  have "d \<in> set (filter (\<lambda>d. drink_id d = i) xs)"
    using assms by simp
  then show ?thesis by simp
qed

lemma short_step_view: "short_step r = Inr j \<Longrightarrow> short_view_step j"
  by (auto simp: short_step_def short_view_step_def split: sum.splits)

lemma short_steps_view:
  "comprehension short_step rs = Inr js \<Longrightarrow> list_all short_view_step js"
  by (induction rs arbitrary: js) (auto split: sum.splits dest: short_step_view)

lemma short_view: "short d = Inr j \<Longrightarrow> short_view_drink j"
  by (auto simp: short_def view_recipe_def short_view_drink_def field_def
      split: sum.splits json.splits dest: short_steps_view)

lemma shorts_view:
  "comprehension short ds = Inr js \<Longrightarrow> list_all short_view_drink js"
  by (induction ds arbitrary: js) (auto split: sum.splits dest: short_view)

lemma short_Inl: "short d = Inl e \<Longrightarrow> handle_exception e = server_error"
  by (auto simp: short_def view_recipe_def split: sum.splits json.splits
      dest!: json_loads_Inl comprehension_Inl short_step_Inl)

subsection \<open>Creation\<close>

text \<open>
  C1: a posted drink should come back with the fields of the request. Posting the title
  \<open>Latte\<close> with one step of 3 parts of white milk to the empty store stores and returns
  the recipe as posted, so the first step's parts is 3, but the title that is stored, and
  returned by the request and by \<open>GET /drinks-detail\<close> after it, is the JSON text of
  the title, the seven characters of \<open>Latte\<close> between two double quotes, since
  \<open>post_drink\<close> passes the title through \<open>json.dumps\<close> while \<open>patch_drink\<close> stores a
  title as it is given.
\<close>

theorem post_latte_title:
  "serve empty_store \<lparr>route = PostDrinks, credentials = all_permissions, get_json = latte_body\<rparr> =
     (jsonify (JObj [(''success'', JBool True),
        (''drinks'', JObj [(''id'', JInt 1), (''title'', JStr (dquote # ''Latte'' @ [dquote])),
                           (''recipe'', JArr [milk_step (JInt 3)])])]), latte_store) \<and>
   fst (serve latte_store
          \<lparr>route = GetDrinksDetail, credentials = all_permissions, get_json = JNull\<rparr>) =
     jsonify (JObj [(''success'', JBool True),
        (''drinks'', JArr [JObj [(''id'', JInt 1),
                                 (''title'', JStr (dquote # ''Latte'' @ [dquote])),
                                 (''recipe'', JArr [milk_step (JInt 3)])]])]) \<and>
   JStr (dquote # ''Latte'' @ [dquote]) \<noteq> JStr ''Latte''"
  by code_simp

text \<open>The JSON text of a string is never the string itself: it is at least two characters longer.\<close>

lemma dumps_str_differs: "dumps_str s \<noteq> s"
proof -
  have "length (concat (map escape_char s)) \<ge> length s"
  proof (induction s)
    case Nil
    then show ?case by simp
  next
    case (Cons c s)
    have "length (escape_char c) \<ge> 1"
      by (simp add: escape_char_def Let_def)
    with Cons show ?case by simp
  qed
  then have "length (dumps_str s) > length s"
    by (simp add: dumps_str_def)
  then show ?thesis by auto
qed

text \<open>
  Whenever the validator accepts a body and the store can be written, the new row holds
  the JSON texts of the body's title and recipe.
\<close>

lemma post_drink_stores:
  assumes "check_drink_body body = Inr True" and "can_write st"
  shows "rows (snd (post_drink ps st body)) =
           rows st @ [\<lparr>drink_id = new_id (rows st),
                        title = JStr (json_dumps (field body ''title'')),
                        recipe = json_dumps (field body ''recipe'')\<rparr>]"
proof -
  have "is_dict body" using assms(1) by (rule check_True_dict)
  then show ?thesis
    using assms
    by (simp add: post_drink_def insert_drink_def Let_def get_dict split: sum.splits)
qed

text \<open>
  C5: a creation request without a title should be rejected with status 400. The validator
  reads the title and never tests it: a body with a recipe and no title is accepted, and
  the drink is created with the title \<open>null\<close>, the JSON text of \<open>None\<close>.
\<close>

theorem post_without_title:
  "serve empty_store \<lparr>route = PostDrinks, credentials = all_permissions,
      get_json = JObj [(''recipe'', JArr [milk_step (JInt 3)])]\<rparr> =
     (jsonify (JObj [(''success'', JBool True),
        (''drinks'', JObj [(''id'', JInt 1), (''title'', JStr ''null''),
                           (''recipe'', JArr [milk_step (JInt 3)])])]),
      \<lparr>can_read = True, can_write = True,
         rows = [\<lparr>drink_id = 1, title = JStr ''null'', recipe = latte_text\<rparr>]\<rparr>)"
  by code_simp

text \<open>
  C3, as amended: on a creation request whose recipe steps are dicts with a non-empty
  color and name, and whose parts are \<open>None\<close>, a bool, an int, a float other than an
  infinity, or a str, the request is rejected with status 400 exactly when some step's
  parts is not accepted, where a parts is accepted when it is a non-zero int, a float that
  is neither zero nor a NaN, \<open>True\<close>, or a str that \<open>int\<close> reads; a rejected request
  leaves the store as it was.
\<close>

theorem post_parts_accepted:
  assumes "route rq = PostDrinks"
    and "credentials rq = Verified ps" and "''post:drinks'' \<in> set ps"
    and "get_json rq = JObj kvs" and "map_of kvs ''recipe'' = Some (JArr steps)"
    and "list_all (\<lambda>r. named_step r \<and> scalar (field r ''parts'') \<and>
                         \<not> is_infinity (field r ''parts'')) steps"
  shows "(status (fst (serve st rq)) = 400) =
           (\<not> list_all (\<lambda>r. parts_accepted (field r ''parts'')) steps) \<and>
         (\<not> list_all (\<lambda>r. parts_accepted (field r ''parts'')) steps \<longrightarrow>
            serve st rq = (bad_request, st))"
proof -
  have s: "serve st rq = respond (post_drink ps st (JObj kvs))"
    using assms by (simp add: serve_post)
  have c: "check_drink_body (JObj kvs) =
      Inr (list_all (\<lambda>r. parts_accepted (field r ''parts'')) steps)"
    using assms by (simp add: check_body_list check_recipe_named)
  show ?thesis
  proof (cases "list_all (\<lambda>r. parts_accepted (field r ''parts'')) steps")
    case True
    with c have "status (fst (respond (post_drink ps st (JObj kvs)))) \<noteq> 400"
      by (simp add: post_drink_accepted)
    with True s show ?thesis by simp
  next
    case False
    with c have "respond (post_drink ps st (JObj kvs)) = (bad_request, st)"
      by (simp add: post_drink_rejected)
    with False s show ?thesis by (simp add: bad_request_def)
  qed
qed

text \<open>
  A recipe whose second step has the parts \<open>x\<close> is rejected and nothing is written, and
  so is one with the parts 0.0; with the parts \<open>3\<close> (a str), 2 (an int) and 0.5 (a
  float) the request is not rejected.
\<close>

theorem post_parts_accepted_witness:
  "serve empty_store \<lparr>route = PostDrinks, credentials = all_permissions,
      get_json = JObj [(''title'', JStr ''Latte''),
                       (''recipe'', JArr [milk_step (JStr ''3''), milk_step (JStr ''x'')])]\<rparr> =
     (bad_request, empty_store) \<and>
   serve empty_store \<lparr>route = PostDrinks, credentials = all_permissions,
      get_json = JObj [(''title'', JStr ''Latte''),
                       (''recipe'', JArr [milk_step (JFloat (Finite ''0.0''))])]\<rparr> =
     (bad_request, empty_store) \<and>
   status (fst (serve empty_store \<lparr>route = PostDrinks, credentials = all_permissions,
      get_json = JObj [(''title'', JStr ''Latte''),
                       (''recipe'', JArr [milk_step (JStr ''3''), milk_step (JInt 2),
                                          milk_step (JFloat (Finite ''0.5''))])]\<rparr>)) \<noteq> 400"
proof -
  let ?ps = "[''get:drinks-detail'', ''post:drinks'', ''patch:drinks'', ''delete:drinks'']"
  let ?bad = "[milk_step (JStr ''3''), milk_step (JStr ''x'')]"
  let ?zero = "[milk_step (JFloat (Finite ''0.0''))]"
  let ?good = "[milk_step (JStr ''3''), milk_step (JInt 2), milk_step (JFloat (Finite ''0.5''))]"
  let ?rq = "\<lambda>steps. \<lparr>route = PostDrinks, credentials = all_permissions,
      get_json = JObj [(''title'', JStr ''Latte''), (''recipe'', JArr steps)]\<rparr>"
  let ?dom = "\<lambda>r. named_step r \<and> scalar (field r ''parts'') \<and> \<not> is_infinity (field r ''parts'')"
  have h1: "route (?rq steps) = PostDrinks" for steps
    by simp
  have h2: "credentials (?rq steps) = Verified ?ps" for steps
    by (simp add: all_permissions_def)
  have h3: "''post:drinks'' \<in> set ?ps"
    by simp
  have h4: "get_json (?rq steps) = JObj [(''title'', JStr ''Latte''), (''recipe'', JArr steps)]"
    for steps
    by simp
  have h5: "map_of [(''title'', JStr ''Latte''), (''recipe'', JArr steps)] ''recipe'' =
      Some (JArr steps)" for steps
    by simp
  have b6: "list_all ?dom ?bad"
    by code_simp
  have z6: "list_all ?dom ?zero"
    by code_simp
  have g6: "list_all ?dom ?good"
    by code_simp
  have b: "\<not> list_all (\<lambda>r. parts_accepted (field r ''parts'')) ?bad"
    by code_simp
  have z: "\<not> list_all (\<lambda>r. parts_accepted (field r ''parts'')) ?zero"
    by code_simp
  have g: "list_all (\<lambda>r. parts_accepted (field r ''parts'')) ?good"
    by code_simp
  from post_parts_accepted [OF h1 h2 h3 h4 h5 b6, of empty_store] b
  have "serve empty_store (?rq ?bad) = (bad_request, empty_store)"
    by blast
  moreover from post_parts_accepted [OF h1 h2 h3 h4 h5 z6, of empty_store] z
  have "serve empty_store (?rq ?zero) = (bad_request, empty_store)"
    by blast
  moreover from post_parts_accepted [OF h1 h2 h3 h4 h5 g6, of empty_store] g
  have "status (fst (serve empty_store (?rq ?good))) \<noteq> 400"
    by blast
  ultimately show ?thesis by simp
qed

text \<open>
  The claim as stated fails: the parts 0 is a number that parses as an integer, and the
  creation request is rejected; a patch request whose step has the unparseable parts
  \<open>x\<close> is not answered with 400; and neither is a creation request whose parts is the
  infinity, on which \<open>int\<close> raises \<open>OverflowError\<close>.
\<close>

theorem zero_parts_rejected:
  "spec_parts_parseable (JInt 0) \<and>
   serve empty_store \<lparr>route = PostDrinks, credentials = all_permissions,
      get_json = JObj [(''title'', JStr ''Latte''), (''recipe'', JArr [milk_step (JInt 0)])]\<rparr> =
     (bad_request, empty_store) \<and>
   \<not> spec_parts_parseable (JStr ''x'') \<and>
   status (fst (serve latte_store \<lparr>route = PatchDrinks 1, credentials = all_permissions,
      get_json = JObj [(''recipe'', JArr [milk_step (JStr ''x'')])]\<rparr>)) \<noteq> 400 \<and>
   \<not> spec_parts_parseable (JFloat (Infinity False)) \<and>
   status (fst (serve empty_store \<lparr>route = PostDrinks, credentials = all_permissions,
      get_json = JObj [(''title'', JStr ''Latte''),
                       (''recipe'', JArr [milk_step (JFloat (Infinity False))])]\<rparr>)) \<noteq> 400"
  by code_simp

text \<open>
  C4, as amended: a creation request whose body is a dict in which \<open>recipe\<close> is absent
  or is not a list is rejected with status 400, and the store is as it was.
\<close>

theorem post_recipe_not_list:
  assumes "route rq = PostDrinks"
    and "credentials rq = Verified ps" and "''post:drinks'' \<in> set ps"
    and "is_dict (get_json rq)" and "\<not> is_list (field (get_json rq) ''recipe'')"
  shows "serve st rq = (bad_request, st)"
proof -
  have "check_drink_body (get_json rq) = Inr False"
    using assms(4,5)
    by (cases "field (get_json rq) ''recipe''")
       (simp_all add: check_drink_body_def get_dict is_list_def)
  then show ?thesis
    using assms by (simp add: serve_post post_drink_rejected)
qed

text \<open>A recipe that is the str \<open>milk\<close> is rejected.\<close>

theorem post_recipe_not_list_witness:
  "serve empty_store \<lparr>route = PostDrinks, credentials = all_permissions,
      get_json = JObj [(''title'', JStr ''Water''), (''recipe'', JStr ''milk'')]\<rparr> =
     (bad_request, empty_store)"
proof -
  let ?ps = "[''get:drinks-detail'', ''post:drinks'', ''patch:drinks'', ''delete:drinks'']"
  let ?rq = "\<lparr>route = PostDrinks, credentials = all_permissions,
      get_json = JObj [(''title'', JStr ''Water''), (''recipe'', JStr ''milk'')]\<rparr>"
  have h1: "route ?rq = PostDrinks"
    by simp
  have h2: "credentials ?rq = Verified ?ps"
    by (simp add: all_permissions_def)
  have h3: "''post:drinks'' \<in> set ?ps"
    by simp
  have h4: "is_dict (get_json ?rq)"
    by (simp add: is_dict_def)
  have h5: "\<not> is_list (field (get_json ?rq) ''recipe'')"
    by (simp add: is_list_def field_def)
  show ?thesis
    by (rule post_recipe_not_list [OF h1 h2 h3 h4 h5])
qed

text \<open>
  The claim as stated fails for the empty list: the loop of the validator runs over no
  step and accepts, and a drink with the recipe \<open>[]\<close> is created.
\<close>

theorem empty_recipe_created:
  "serve empty_store \<lparr>route = PostDrinks, credentials = all_permissions,
      get_json = JObj [(''title'', JStr ''Water''), (''recipe'', JArr [])]\<rparr> =
     (jsonify (JObj [(''success'', JBool True),
        (''drinks'', JObj [(''id'', JInt 1), (''title'', JStr (dumps_str ''Water'')),
                           (''recipe'', JArr [])])]),
      \<lparr>can_read = True, can_write = True,
         rows = [\<lparr>drink_id = 1, title = JStr (dumps_str ''Water''), recipe = ''[]''\<rparr>]\<rparr>)"
  by code_simp

text \<open>
  C10: the validator is not total. When the recipe is a list whose earlier steps pass and
  whose next element is not a dict, or is a dict with a truthy color, name and parts whose
  parts is a list or a dict, \<open>check_drink_body\<close> raises (\<open>AttributeError\<close> for the
  element that is not a dict, \<open>TypeError\<close> otherwise), and the creation request is
  answered by the handler of 500, not with the rejection of status 400; the store is as it
  was.
\<close>

theorem post_validator_raises:
  assumes "route rq = PostDrinks"
    and "credentials rq = Verified ps" and "''post:drinks'' \<in> set ps"
    and "get_json rq = JObj kvs" and "map_of kvs ''recipe'' = Some (JArr (pre @ r # post))"
    and "check_recipe pre = Inr True"
    and "\<not> is_dict r \<or> (named_step r \<and> truthy (field r ''parts'') \<and> \<not> scalar (field r ''parts''))"
  shows "check_drink_body (get_json rq) = Inl (if is_dict r then TypeError else AttributeError) \<and>
         serve st rq = (server_error, st) \<and> fst (serve st rq) \<noteq> bad_request"
proof -
  have "check_recipe (r # post) = Inl (if is_dict r then TypeError else AttributeError)"
  proof (cases "is_dict r")
    case False
    then show ?thesis by (simp add: get_not_dict)
  next
    case True
    with assms(7) have "truthy (field r ''color'')" "truthy (field r ''name'')"
      "truthy (field r ''parts'')" "py_int (field r ''parts'') = Inl TypeError"
      by (simp_all add: named_step_def py_int_not_scalar)
    with True show ?thesis by (simp add: get_dict)
  qed
  with assms(5,6) have c: "check_drink_body (JObj kvs) = Inl (if is_dict r then TypeError else AttributeError)"
    by (simp add: check_body_list check_recipe_prefix)
  then have "respond (post_drink ps st (JObj kvs)) = (server_error, st)"
    by (simp add: post_drink_raised)
  with assms c show ?thesis
    by (simp add: serve_post server_error_def bad_request_def jsonify_def)
qed

text \<open>A recipe whose second element is the number 1, and one whose second step has the parts \<open>[1]\<close>.\<close>

theorem post_validator_raises_witness:
  "check_drink_body (JObj [(''title'', JStr ''Latte''),
      (''recipe'', JArr [milk_step (JInt 3), JInt 1])]) = Inl AttributeError \<and>
   serve empty_store \<lparr>route = PostDrinks, credentials = all_permissions,
      get_json = JObj [(''title'', JStr ''Latte''),
                       (''recipe'', JArr [milk_step (JInt 3), JInt 1])]\<rparr> =
     (server_error, empty_store) \<and>
   check_drink_body (JObj [(''title'', JStr ''Latte''),
      (''recipe'', JArr [milk_step (JInt 3), milk_step (JArr [JInt 1])])]) = Inl TypeError \<and>
   serve empty_store \<lparr>route = PostDrinks, credentials = all_permissions,
      get_json = JObj [(''title'', JStr ''Latte''),
                       (''recipe'', JArr [milk_step (JInt 3), milk_step (JArr [JInt 1])])]\<rparr> =
     (server_error, empty_store)"
proof -
  let ?ps = "[''get:drinks-detail'', ''post:drinks'', ''patch:drinks'', ''delete:drinks'']"
  let ?rq = "\<lambda>r. \<lparr>route = PostDrinks, credentials = all_permissions,
      get_json = JObj [(''title'', JStr ''Latte''), (''recipe'', JArr [milk_step (JInt 3), r])]\<rparr>"
  have h1: "route (?rq r) = PostDrinks" for r
    by simp
  have h2: "credentials (?rq r) = Verified ?ps" for r
    by (simp add: all_permissions_def)
  have h3: "''post:drinks'' \<in> set ?ps"
    by simp
  have h4: "get_json (?rq r) =
      JObj [(''title'', JStr ''Latte''), (''recipe'', JArr [milk_step (JInt 3), r])]" for r
    by simp
  have h5: "map_of [(''title'', JStr ''Latte''), (''recipe'', JArr [milk_step (JInt 3), r])]
      ''recipe'' = Some (JArr ([milk_step (JInt 3)] @ r # []))" for r
    by simp
  have h6: "check_recipe [milk_step (JInt 3)] = Inr True"
    by code_simp
  have a7: "\<not> is_dict (JInt 1) \<or> (named_step (JInt 1) \<and> truthy (field (JInt 1) ''parts'') \<and>
      \<not> scalar (field (JInt 1) ''parts''))"
    by (simp add: is_dict_def)
  have t: "named_step (milk_step (JArr [JInt 1])) \<and>
      truthy (field (milk_step (JArr [JInt 1])) ''parts'') \<and>
      \<not> scalar (field (milk_step (JArr [JInt 1])) ''parts'')"
    by code_simp
  then have t7: "\<not> is_dict (milk_step (JArr [JInt 1])) \<or>
     (named_step (milk_step (JArr [JInt 1])) \<and>
      truthy (field (milk_step (JArr [JInt 1])) ''parts'') \<and>
      \<not> scalar (field (milk_step (JArr [JInt 1])) ''parts''))"
    by blast
  have d: "\<not> is_dict (JInt 1)" "is_dict (milk_step (JArr [JInt 1]))"
    by (simp_all add: is_dict_def milk_step_def)
  from post_validator_raises [OF h1 h2 h3 h4 h5 h6 a7, of empty_store] d(1)
  have "check_drink_body (get_json (?rq (JInt 1))) = Inl AttributeError \<and>
        serve empty_store (?rq (JInt 1)) = (server_error, empty_store)"
    by simp
  moreover from post_validator_raises [OF h1 h2 h3 h4 h5 h6 t7, of empty_store] d(2)
  have "check_drink_body (get_json (?rq (milk_step (JArr [JInt 1])))) = Inl TypeError \<and>
        serve empty_store (?rq (milk_step (JArr [JInt 1]))) = (server_error, empty_store)"
    by simp
  ultimately show ?thesis by simp
qed

subsection \<open>Patching\<close>

text \<open>The loop of \<open>patch_drink\<close> raises on every non-empty recipe list.\<close>

lemma patch_steps_raises: "rs \<noteq> [] \<Longrightarrow> patch_steps rs (enumerate n rs) d = Inl TypeError"
  by (cases rs) (simp_all add: list_getitem_def)

text \<open>So does the handler, for every existing drink and every body with such a list.\<close>

lemma patch_recipe_list_fails:
  assumes "query_one_or_none st i = Inr (Some d)"
    and "is_dict body" and "field body ''recipe'' = JArr rs" and "rs \<noteq> []"
  shows "respond (patch_drink ps st i body) = (server_error, st)"
proof -
  from assms(2,3,4) have "truthy body"
    by (cases body) (auto simp: is_dict_def field_def)
  then show ?thesis
    using assms
    by (simp add: patch_drink_def Let_def get_dict patch_steps_raises respond_def)
qed

text \<open>
  C2: a patch with a non-empty recipe list should merge each given field into the stored
  step at the same position and answer 200 with the updated drink. In the source the first
  \<open>recipe[i]\<close> of the loop raises \<open>TypeError\<close>: patching the parts of the latte's only
  step ends in the handler of 500, and the stored drink is as it was.
\<close>

theorem patch_recipe_raises:
  "serve latte_store \<lparr>route = PatchDrinks 1, credentials = all_permissions,
      get_json = JObj [(''recipe'', JArr [JObj [(''parts'', JInt 5)]])]\<rparr> =
    (server_error, latte_store)"
  by code_simp

text \<open>
  C6, as amended: for a drink that exists, a patch request whose body holds only a
  non-empty title, on a store that can be read and written, sets the title of that drink
  to the given one and changes nothing else: every other row, and the recipe text of every
  row, are as they were. The response is the long view of the drink with its new title
  (that of the handler of 500 when the stored recipe text has no long view).
\<close>

theorem patch_title_only:
  assumes "route rq = PatchDrinks i"
    and "credentials rq = Verified ps" and "''patch:drinks'' \<in> set ps"
    and "get_json rq = JObj [(''title'', JStr s)]" and "s \<noteq> []"
    and "can_read st" and "can_write st"
    and "filter (\<lambda>d. drink_id d = i) (rows st) = [d]"
  shows "snd (serve st rq) =
           st\<lparr>rows := map (\<lambda>r. if drink_id r = i then r\<lparr>title := JStr s\<rparr> else r) (rows st)\<rparr> \<and>
         map recipe (rows (snd (serve st rq))) = map recipe (rows st) \<and>
         fst (serve st rq) =
           (case long (d\<lparr>title := JStr s\<rparr>) of
              Inl e \<Rightarrow> server_error
            | Inr j \<Rightarrow> jsonify (JObj [(''success'', JBool True), (''drinks'', JArr [j])]))"
proof -
  let ?d = "d\<lparr>title := JStr s\<rparr>"
  let ?st = "st\<lparr>rows := map (\<lambda>r. if drink_id r = i then r\<lparr>title := JStr s\<rparr> else r) (rows st)\<rparr>"
  have i: "drink_id d = i" using assms(8) by (rule filter_single_id)
  have q: "query_one_or_none st i = Inr (Some d)"
    using assms(6,8) by (simp add: query_one_or_none_def)
  have "map (\<lambda>r. if drink_id r = i then (\<lambda>x. x\<lparr>title := JStr s\<rparr>) d else r) (rows st) =
        map (\<lambda>r. if drink_id r = i then (\<lambda>x. x\<lparr>title := JStr s\<rparr>) r else r) (rows st)"
    using assms(8) by (rule filter_single_map)
  with i assms(7) have u: "update_drink st ?d = Inr (?d, ?st)"
    by (simp add: update_drink_def is_str_def)
  have p: "patch_drink ps st i (JObj [(''title'', JStr s)]) =
      (case long ?d of
         Inl e \<Rightarrow> (Inl e, ?st)
       | Inr j \<Rightarrow> (Inr (JObj [(''success'', JBool True), (''drinks'', JArr [j])]), ?st))"
    using q u assms(5) by (simp add: patch_drink_def Let_def)
  have s: "serve st rq = respond (patch_drink ps st i (JObj [(''title'', JStr s)]))"
    using assms(1-4) by (simp add: serve_patch)
  have r: "map recipe (rows ?st) = map recipe (rows st)"
    by (simp add: comp_def if_distrib cong: if_cong)
  show ?thesis
  proof (cases "long ?d")
    case (Inl e)
    then have "handle_exception e = server_error" by (rule long_raise_status)
    with Inl p s r show ?thesis by (simp add: respond_def)
  next
    case (Inr j)
    with p s r show ?thesis by (simp add: respond_def)
  qed
qed

text \<open>Patching the latte's title to \<open>X\<close>.\<close>

theorem patch_title_only_witness:
  "snd (serve latte_store \<lparr>route = PatchDrinks 1, credentials = all_permissions,
      get_json = JObj [(''title'', JStr ''X'')]\<rparr>) =
     \<lparr>can_read = True, can_write = True,
        rows = [\<lparr>drink_id = 1, title = JStr ''X'', recipe = latte_text\<rparr>]\<rparr> \<and>
   fst (serve latte_store \<lparr>route = PatchDrinks 1, credentials = all_permissions,
      get_json = JObj [(''title'', JStr ''X'')]\<rparr>) =
     jsonify (JObj [(''success'', JBool True),
        (''drinks'', JArr [JObj [(''id'', JInt 1), (''title'', JStr ''X''),
                                 (''recipe'', JArr [milk_step (JInt 3)])]])])"
proof -
  let ?ps = "[''get:drinks-detail'', ''post:drinks'', ''patch:drinks'', ''delete:drinks'']"
  let ?rq = "\<lparr>route = PatchDrinks 1, credentials = all_permissions,
      get_json = JObj [(''title'', JStr ''X'')]\<rparr>"
  let ?d = "\<lparr>drink_id = 1, title = JStr (dumps_str ''Latte''), recipe = latte_text\<rparr>"
  have h1: "route ?rq = PatchDrinks 1"
    by simp
  have h2: "credentials ?rq = Verified ?ps"
    by (simp add: all_permissions_def)
  have h3: "''patch:drinks'' \<in> set ?ps"
    by simp
  have h4: "get_json ?rq = JObj [(''title'', JStr ''X'')]"
    by simp
  have h5: "''X'' \<noteq> []"
    by simp
  have h6: "can_read latte_store" and h7: "can_write latte_store"
    by (simp_all add: latte_store_def)
  have h8: "filter (\<lambda>d. drink_id d = 1) (rows latte_store) = [?d]"
    by (simp add: latte_store_def)
  have l: "long (?d\<lparr>title := JStr ''X''\<rparr>) =
      Inr (JObj [(''id'', JInt 1), (''title'', JStr ''X''), (''recipe'', JArr [milk_step (JInt 3)])])"
    by code_simp
  from patch_title_only [OF h1 h2 h3 h4 h5 h6 h7 h8] l
  show ?thesis
    by (simp add: latte_store_def)
qed

text \<open>
  The claim as stated fails for the empty title: \<open>if title:\<close> skips the assignment, the
  request is answered 200 and the title is not the empty one that was given.
\<close>

theorem patch_empty_title_kept:
  "serve latte_store \<lparr>route = PatchDrinks 1, credentials = all_permissions,
      get_json = JObj [(''title'', JStr [])]\<rparr> =
     (jsonify (JObj [(''success'', JBool True),
        (''drinks'', JArr [JObj [(''id'', JInt 1), (''title'', JStr (dumps_str ''Latte'')),
                           (''recipe'', JArr [milk_step (JInt 3)])]])]), latte_store) \<and>
   map title (rows latte_store) \<noteq> [JStr []]"
  by code_simp

subsection \<open>Deleting\<close>

text \<open>
  C7, as amended: for every id that no row of the store has, \<open>DELETE /drinks/<id>\<close>
  with a token that grants \<open>delete:drinks\<close>, on a store whose lookup does not raise,
  answers with status 404, never 200, and leaves the store as it was.
\<close>

theorem delete_absent_404:
  assumes "route rq = DeleteDrinks i"
    and "credentials rq = Verified ps" and "''delete:drinks'' \<in> set ps"
    and "can_read st" and "i \<notin> drink_id ` set (rows st)"
  shows "serve st rq = (unprocessable_404, st) \<and> status (fst (serve st rq)) = 404 \<and>
         status (fst (serve st rq)) \<noteq> 200"
proof -
  from assms(5) have "filter (\<lambda>d. drink_id d = i) (rows st) = []"
    by (auto simp: filter_empty_conv)
  with assms(4) have "query_one_or_none st i = Inr None"
    by (simp add: query_one_or_none_def)
  then have "respond (delete_drinks ps st i) = (unprocessable_404, st)"
    by (simp add: delete_drinks_def respond_def)
  with assms(1-3) show ?thesis
    by (simp add: serve_delete unprocessable_404_def with_status_def)
qed

text \<open>Deleting the drink 2 from the store that holds only the drink 1.\<close>

theorem delete_absent_404_witness:
  "serve latte_store \<lparr>route = DeleteDrinks 2, credentials = all_permissions, get_json = JNull\<rparr>
     = (unprocessable_404, latte_store) \<and>
   status (fst (serve latte_store
     \<lparr>route = DeleteDrinks 2, credentials = all_permissions, get_json = JNull\<rparr>)) = 404"
proof -
  let ?rq = "\<lparr>route = DeleteDrinks 2, credentials = all_permissions, get_json = JNull\<rparr>"
  have h1: "route ?rq = DeleteDrinks 2"
    by simp
  have h2: "credentials ?rq =
      Verified [''get:drinks-detail'', ''post:drinks'', ''patch:drinks'', ''delete:drinks'']"
    by (simp add: all_permissions_def)
  have h3: "''delete:drinks'' \<in>
      set [''get:drinks-detail'', ''post:drinks'', ''patch:drinks'', ''delete:drinks'']"
    by simp
  have h4: "can_read latte_store"
    by (simp add: latte_store_def)
  have h5: "(2::int) \<notin> drink_id ` set (rows latte_store)"
    by (simp add: latte_store_def)
  from delete_absent_404 [OF h1 h2 h3 h4 h5] show ?thesis
    by blast
qed

text \<open>
  The claim as stated fails where the lookup raises: the handler aborts with 500, and the
  answer for an id that no row has is that of the handler of 500, whose status is 200.
\<close>

theorem delete_unreadable_200:
  "serve \<lparr>can_read = False, can_write = True, rows = []\<rparr>
      \<lparr>route = DeleteDrinks 2, credentials = all_permissions, get_json = JNull\<rparr> =
     (server_error, \<lparr>can_read = False, can_write = True, rows = []\<rparr>) \<and>
   status (fst (serve \<lparr>can_read = False, can_write = True, rows = []\<rparr>
      \<lparr>route = DeleteDrinks 2, credentials = all_permissions, get_json = JNull\<rparr>)) = 200"
  by code_simp

subsection \<open>Listing\<close>

text \<open>
  C8: \<open>GET /drinks\<close> needs no token and no permission, the response being the same
  whatever the credentials of the request are; it leaves the store as it was; and its
  response is either that of the handler of 500 or a list of drinks in which every step of
  every recipe has exactly a color and a name, so never the parts.
\<close>

theorem get_drinks_public:
  assumes "route rq = GetDrinks"
  shows "serve st (rq\<lparr>credentials := c\<rparr>) = serve st rq \<and> snd (serve st rq) = st \<and>
         (fst (serve st rq) = server_error \<or>
          (\<exists>ds. fst (serve st rq) =
                   jsonify (JObj [(''success'', JBool True), (''drinks'', JArr ds)]) \<and>
                list_all short_view_drink ds))"
proof -
  have s: "serve st rq = respond (get_drinks st)" and "serve st (rq\<lparr>credentials := c\<rparr>) = serve st rq"
    using assms by (simp_all add: serve_def)
  moreover have "snd (respond (get_drinks st)) = st"
    by (simp add: respond_def get_drinks_def query_all_def split: sum.splits)
  moreover have "fst (respond (get_drinks st)) = server_error \<or>
          (\<exists>ds. fst (respond (get_drinks st)) =
                   jsonify (JObj [(''success'', JBool True), (''drinks'', JArr ds)]) \<and>
                list_all short_view_drink ds)"
  proof (cases "can_read st")
    case False
    then show ?thesis by (simp add: respond_def get_drinks_def query_all_def)
  next
    case True
    show ?thesis
    proof (cases "comprehension short (rows st)")
      case (Inl e)
      then obtain d where "short d = Inl e" by (auto dest: comprehension_Inl)
      then have "handle_exception e = server_error" by (rule short_Inl)
      with Inl True show ?thesis by (simp add: respond_def get_drinks_def query_all_def)
    next
      case (Inr js)
      then have "list_all short_view_drink js"
        by (rule shorts_view)
      with Inr True show ?thesis by (auto simp add: respond_def get_drinks_def query_all_def)
    qed
  qed
  ultimately show ?thesis by simp
qed

text \<open>
  The latte is listed without its parts for a request with no token, as for one with
  every permission.
\<close>

theorem get_drinks_public_witness:
  "serve latte_store \<lparr>route = GetDrinks, credentials = Rejected 401 ''Authorization header is expected.'',
                      get_json = JNull\<rparr> =
     (jsonify (JObj [(''success'', JBool True),
        (''drinks'', JArr [JObj [(''id'', JInt 1), (''title'', JStr (dumps_str ''Latte'')),
           (''recipe'', JArr [JObj [(''color'', JStr ''white''), (''name'', JStr ''milk'')]])]])]),
      latte_store) \<and>
   serve latte_store \<lparr>route = GetDrinks, credentials = Rejected 401 ''Authorization header is expected.'',
                      get_json = JNull\<rparr> =
   serve latte_store \<lparr>route = GetDrinks, credentials = all_permissions, get_json = JNull\<rparr>"
proof -
  let ?rq = "\<lparr>route = GetDrinks, credentials = all_permissions, get_json = JNull\<rparr>"
  have h: "route ?rq = GetDrinks"
    by simp
  have e: "serve latte_store ?rq =
     (jsonify (JObj [(''success'', JBool True),
        (''drinks'', JArr [JObj [(''id'', JInt 1), (''title'', JStr (dumps_str ''Latte'')),
           (''recipe'', JArr [JObj [(''color'', JStr ''white''), (''name'', JStr ''milk'')]])]])]),
      latte_store)"
    by code_simp
  from get_drinks_public [OF h, of latte_store "Rejected 401 ''Authorization header is expected.''"]
  have "serve latte_store (?rq\<lparr>credentials := Rejected 401 ''Authorization header is expected.''\<rparr>) =
        serve latte_store ?rq"
    by blast
  with e show ?thesis by simp
qed

subsection \<open>The handler of 500\<close>

text \<open>
  C9: an internal failure should be answered with the HTTP status 500. A creation request
  whose recipe holds a number makes the validator raise and is answered by the handler of
  500; its body is the uniform failure body with the error 500 and the fixed message, but
  its status is 200, since the handler returns the body with no status beside it, as the
  handlers of 422 and 404 do not.
\<close>

theorem server_error_status:
  "serve empty_store \<lparr>route = PostDrinks, credentials = all_permissions,
      get_json = JObj [(''recipe'', JArr [JInt 1])]\<rparr> = (server_error, empty_store) \<and>
   status server_error = 200 \<and>
   content server_error = Json (failure 500 ''Something went wrong.'') \<and>
   status unprocessable = 422 \<and> status unprocessable_404 = 404"
  by code_simp

end
